theory Spec2Isabelle
  imports Main "HOL-Library.Word"
begin

unbundle bit_operations_syntax

section \<open>The presolve vocabulary of dwave/flags.hpp\<close>

subsection \<open>Feasibility\<close>

text \<open>
  \<^verbatim>\<open>enum Feasibility { Infeasible, Feasible, Unknown, };\<close>
  An unscoped enumeration with three enumerators and no initialisers.
\<close>

datatype Feasibility = Infeasible | Feasible | Unknown

text \<open>
  The C++ numbering rule for enumerators without initialisers: the first one has the
  value 0 and each following one the value of its predecessor plus one.
\<close>

fun enum_values :: "'a list \<Rightarrow> int \<Rightarrow> ('a \<times> int) list" where
  "enum_values [] n = []"
| "enum_values (e # es) n = (e, n) # enum_values es (n + 1)"

text \<open>The enumerators of \<open>Feasibility\<close> in the order of their declaration.\<close>

definition Feasibility_values :: "(Feasibility \<times> int) list" where
  "Feasibility_values = enum_values [Infeasible, Feasible, Unknown] 0"

text \<open>The underlying value of an enumerator.\<close>

definition Feasibility_value :: "Feasibility \<Rightarrow> int option" where
  "Feasibility_value f = map_of Feasibility_values f"

text \<open>
  The enumerator an underlying value denotes (\<open>static_cast<Feasibility>(v)\<close>), when
  there is one. Zero- and value-initialisation of a \<open>Feasibility\<close> object
  (\<open>Feasibility f{};\<close>, a static object) store the underlying value 0.
\<close>

definition Feasibility_of_value :: "int \<Rightarrow> Feasibility option" where
  "Feasibility_of_value v = map_of (map (\<lambda>(e, n). (n, e)) Feasibility_values) v"

definition zero_initialized :: "Feasibility option" where
  "zero_initialized = Feasibility_of_value 0"

subsection \<open>TechniqueFlags\<close>

text \<open>
  \<^verbatim>\<open>enum TechniqueFlags : std::uint64_t\<close>: the underlying type is fixed, so the values of
  the enumeration are exactly the values of a 64-bit unsigned integer.
\<close>

type_synonym TechniqueFlags = "64 word"

definition None_tf :: TechniqueFlags where
  "None_tf = 0"

definition RemoveRedundantConstraints :: TechniqueFlags where
  "RemoveRedundantConstraints = push_bit 0 1"

definition RemoveSmallBiases :: TechniqueFlags where
  "RemoveSmallBiases = push_bit 1 1"

definition DomainPropagation :: TechniqueFlags where
  "DomainPropagation = push_bit 2 1"

definition All_tf :: TechniqueFlags where
  "All_tf = 0xffffffffffffffff"

definition Default :: TechniqueFlags where
  "Default = All_tf"

subsection \<open>Operations of the specification\<close>

text \<open>
  Modelled from the spec: the header declares the two enumerations only and no function
  \<open>Union\<close>. Section 4.1: "Union(a, b): bitwise OR" (the built-in \<open>|\<close> of C++ on the
  underlying \<open>std::uint64_t\<close>).
\<close>

definition Union_tf :: "TechniqueFlags \<Rightarrow> TechniqueFlags \<Rightarrow> TechniqueFlags" where
  "Union_tf a b = a OR b"

text \<open>
  Modelled from the spec: no function \<open>Intersection\<close> is in the header. Section 4.1:
  "Intersection(a, b): bitwise AND" (the built-in \<open>&\<close> of C++).
\<close>

definition Intersection :: "TechniqueFlags \<Rightarrow> TechniqueFlags \<Rightarrow> TechniqueFlags" where
  "Intersection a b = a AND b"

text \<open>
  Modelled from the spec: no function \<open>Contains\<close> is in the header. Section 4.1:
  "Contains(set, technique): true iff every bit set in technique is also set in set",
  computed as \<open>(set & technique) == technique\<close>; \<open>Contains_bits\<close> below shows that
  this is the bitwise reading.
\<close>

definition Contains :: "TechniqueFlags \<Rightarrow> TechniqueFlags \<Rightarrow> bool" where
  "Contains s t = (s AND t = t)"

text \<open>
  Modelled from the spec: the membership formula of section 3, "Testing whether technique
  T is enabled in set S is \<open>(S & T) != None\<close>".
\<close>

definition Enabled :: "TechniqueFlags \<Rightarrow> TechniqueFlags \<Rightarrow> bool" where
  "Enabled s t = (s AND t \<noteq> None_tf)"

text \<open>
  The bits that carry a named technique, and the values that lie wholly in the reserved
  bits 3 to 63 (section 3: "Unassigned/reserved bits (bits 3-63 at present)").
\<close>

definition named_bits :: TechniqueFlags where
  "named_bits = RemoveRedundantConstraints OR RemoveSmallBiases OR DomainPropagation"

definition reserved_only :: "TechniqueFlags \<Rightarrow> bool" where
  "reserved_only r = (r AND named_bits = None_tf)"

definition named_technique :: "TechniqueFlags \<Rightarrow> bool" where
  "named_technique t =
     (t = RemoveRedundantConstraints \<or> t = RemoveSmallBiases \<or> t = DomainPropagation)"

text \<open>The internal-consistency error of sections 4.2 and 7.\<close>

datatype error = InternalConsistency

text \<open>
  The outcome of a narrowing merge: the verdict the merge keeps, and the error it reports
  to the caller when there is one.
\<close>

record narrowed =
  verdict :: Feasibility
  reported :: "error option"

text \<open>
  Modelled from the spec: no function \<open>Narrow\<close> is in the header. Section 4.2:
  "returns proposed only if current is Unknown; otherwise returns current unchanged
  (... later inconclusive or contradictory findings ... must not silently overwrite the
  proof)", so the verdict kept is \<open>current\<close> also when \<open>proposed\<close> contradicts it.
  Sections 7 and 8: a merge of a terminal state with the contradictory terminal state
  "must be surfaced as an internal-consistency error to the caller, not silently resolved",
  so those two merges report the error.
\<close>

fun Narrow :: "Feasibility \<Rightarrow> Feasibility \<Rightarrow> narrowed" where
  "Narrow Unknown proposed = \<lparr>verdict = proposed, reported = None\<rparr>"
| "Narrow Feasible Infeasible = \<lparr>verdict = Feasible, reported = Some InternalConsistency\<rparr>"
| "Narrow Infeasible Feasible = \<lparr>verdict = Infeasible, reported = Some InternalConsistency\<rparr>"
| "Narrow current proposed = \<lparr>verdict = current, reported = None\<rparr>"

text \<open>
  Modelled from the spec: section 8, "\<open>Narrow(Feasible, Infeasible)\<close> must raise the
  internal-consistency error, not return Infeasible or Feasible silently". What a caller
  receives when a reported error is raised: the error (\<open>Inl\<close>) in place of the verdict,
  and the verdict (\<open>Inr\<close>) when nothing is reported.
\<close>

definition Narrow_raise :: "Feasibility \<Rightarrow> Feasibility \<Rightarrow> error + Feasibility" where
  "Narrow_raise current proposed =
     (case reported (Narrow current proposed) of
        Some e \<Rightarrow> Inl e
      | None \<Rightarrow> Inr (verdict (Narrow current proposed)))"

text \<open>Two verdicts conflict when they are the two different terminal states.\<close>

definition conflicting :: "Feasibility \<Rightarrow> Feasibility \<Rightarrow> bool" where
  "conflicting current proposed =
     (current \<noteq> Unknown \<and> proposed \<noteq> Unknown \<and> current \<noteq> proposed)"

section \<open>Basic facts\<close>

lemma named_values:
  "RemoveRedundantConstraints = 1" "RemoveSmallBiases = 2" "DomainPropagation = 4"
  by (simp_all add: RemoveRedundantConstraints_def RemoveSmallBiases_def DomainPropagation_def)

lemma All_tf_minus_one: "All_tf = - 1"
  by (simp add: All_tf_def)

lemma Feasibility_values_eq:
  "Feasibility_values = [(Infeasible, 0), (Feasible, 1), (Unknown, 2)]"
  by (simp add: Feasibility_values_def)

text \<open>\<open>Contains\<close> is the subset test on bits, as section 4.1 words it.\<close>

lemma Contains_bits: "Contains s t = (\<forall>i. bit t i \<longrightarrow> bit s i)"
proof
  assume "Contains s t"
  then have eq: "s AND t = t" by (simp add: Contains_def)
  show "\<forall>i. bit t i \<longrightarrow> bit s i"
  proof (intro allI impI)
    fix i assume "bit t i"
    then have "bit (s AND t) i" by (simp add: eq)
    then show "bit s i" by (simp add: bit_and_iff)
  qed
next
  assume sub: "\<forall>i. bit t i \<longrightarrow> bit s i"
  have "s AND t = t"
    by (rule bit_eqI) (use sub in \<open>auto simp add: bit_and_iff\<close>)
  then show "Contains s t" by (simp add: Contains_def)
qed

text \<open>A flag \<open>1 << k\<close> has the bit \<open>k\<close> set and no other.\<close>

lemma bit_single: "k < 64 \<Longrightarrow> bit (push_bit k (1::TechniqueFlags)) n = (n = k)"
  by (auto simp add: bit_exp_iff)

lemma single_bit_set: "k < 64 \<Longrightarrow> {i. bit (push_bit k (1::TechniqueFlags)) i} = {k}"
  by (auto simp only: bit_single)

lemma and_single_eq:
  assumes "k < 64"
  shows "(s AND push_bit k 1 = push_bit k (1::TechniqueFlags)) = bit s k"
proof
  assume "s AND push_bit k 1 = push_bit k (1::TechniqueFlags)"
  then have "bit (s AND push_bit k (1::TechniqueFlags)) k = bit (push_bit k (1::TechniqueFlags)) k"
    by simp
  then show "bit s k" using assms by (simp only: bit_and_iff bit_single) simp
next
  assume "bit s k"
  show "s AND push_bit k 1 = push_bit k (1::TechniqueFlags)"
    by (rule bit_eqI) (use \<open>bit s k\<close> assms in \<open>auto simp only: bit_and_iff bit_single\<close>)
qed

lemma and_single_zero:
  assumes "k < 64"
  shows "(s AND push_bit k 1 = (0::TechniqueFlags)) = (\<not> bit s k)"
proof
  assume "s AND push_bit k 1 = (0::TechniqueFlags)"
  then have "bit (s AND push_bit k (1::TechniqueFlags)) k = bit (0::TechniqueFlags) k"
    by simp
  then show "\<not> bit s k" using assms by (simp only: bit_and_iff bit_single) simp
next
  assume "\<not> bit s k"
  show "s AND push_bit k 1 = (0::TechniqueFlags)"
    by (rule bit_eqI)
      (use \<open>\<not> bit s k\<close> assms in \<open>auto simp only: bit_and_iff bit_single bit_0_eq\<close>)
qed

text \<open>Setting bits that are disjoint from \<open>t\<close> does not change the part under \<open>t\<close>.\<close>

lemma or_disjoint_and:
  fixes s r t :: TechniqueFlags
  assumes "r AND t = 0"
  shows "(s OR r) AND t = s AND t"
  by (simp add: bit.conj_disj_distrib2 assms)

lemma and_under_mask_zero:
  fixes r t m :: TechniqueFlags
  assumes "r AND m = 0" and "t AND m = t"
  shows "r AND t = 0"
proof -
  have "r AND t = r AND (t AND m)" by (simp add: assms(2))
  also have "\<dots> = (r AND m) AND t" by (simp add: ac_simps)
  finally show ?thesis by (simp add: assms(1))
qed

lemma named_under_named_bits:
  "named_technique t \<Longrightarrow> t AND named_bits = t"
  by (auto simp add: named_technique_def named_bits_def named_values)

text \<open>
  Where the two membership tests of the specification agree: the subset test of
  section 4.1 and the formula of section 3 give the same answer exactly for a non-empty
  \<open>t\<close> whose bits are all in \<open>s\<close> or all outside it.
\<close>

lemma Contains_Enabled_agree:
  "(Contains s t = Enabled s t) = (t \<noteq> None_tf \<and> (s AND t = None_tf \<or> s AND t = t))"
  by (auto simp add: Contains_def Enabled_def None_tf_def)

section \<open>Narrowing of the feasibility verdict\<close>

text \<open>
  C1. For every pair of verdicts, the verdict of \<open>Narrow current proposed\<close> is \<open>proposed\<close>
  if \<open>current\<close> is \<open>Unknown\<close> and \<open>current\<close> unchanged otherwise. In particular
  \<open>Narrow Feasible Unknown\<close> is \<open>Feasible\<close>, \<open>Narrow Infeasible Unknown\<close> is \<open>Infeasible\<close>,
  and narrowing \<open>Unknown\<close> to \<open>Feasible\<close> and the result to \<open>Feasible\<close> again gives
  \<open>Feasible\<close>; none of the three reports an error.
\<close>

theorem Narrow_merge:
  "verdict (Narrow current proposed) = (if current = Unknown then proposed else current)
   \<and> Narrow Feasible Unknown = \<lparr>verdict = Feasible, reported = None\<rparr>
   \<and> Narrow Infeasible Unknown = \<lparr>verdict = Infeasible, reported = None\<rparr>
   \<and> Narrow (verdict (Narrow Unknown Feasible)) Feasible
       = \<lparr>verdict = Feasible, reported = None\<rparr>
   \<and> Narrow_raise Feasible Unknown = Inr Feasible
   \<and> Narrow_raise Infeasible Unknown = Inr Infeasible"
  by (cases current; cases proposed) (simp_all add: Narrow_raise_def)

text \<open>
  C2. Narrowing a terminal verdict with the opposite terminal verdict (Feasible with
  Infeasible, or Infeasible with Feasible) reports the internal-consistency error, and
  the caller to whom it is raised receives the error and neither verdict. No other merge
  reports an error.
\<close>

theorem Narrow_conflict_error:
  "Narrow_raise Feasible Infeasible = Inl InternalConsistency
   \<and> Narrow_raise Infeasible Feasible = Inl InternalConsistency
   \<and> (conflicting current proposed \<longrightarrow>
        Narrow_raise current proposed = Inl InternalConsistency)
   \<and> reported (Narrow Feasible Infeasible) = Some InternalConsistency
   \<and> reported (Narrow Infeasible Feasible) = Some InternalConsistency
   \<and> (conflicting current proposed \<longrightarrow>
        reported (Narrow current proposed) = Some InternalConsistency)
   \<and> (reported (Narrow current proposed) = None) = (\<not> conflicting current proposed)"
  by (cases current; cases proposed) (simp_all add: conflicting_def Narrow_raise_def)

theorem Narrow_conflict_error_witness:
  "conflicting Infeasible Feasible
   \<and> Narrow_raise Infeasible Feasible = Inl InternalConsistency
   \<and> reported (Narrow Infeasible Feasible) = Some InternalConsistency"
proof -
  have c: "conflicting Infeasible Feasible" by (simp add: conflicting_def)
  with Narrow_conflict_error [of Infeasible Feasible] show ?thesis by simp
qed

section \<open>Membership in a technique set\<close>

text \<open>
  C3 (amended). For every technique set \<open>S\<close> and every single-bit technique \<open>T = 1 << k\<close>
  with \<open>k < 64\<close> (the three named techniques are of this form), \<open>Contains S T\<close> holds
  exactly when \<open>(S & T) != None\<close>.
\<close>

theorem Contains_Enabled_single_bit:
  assumes "k < 64"
  shows "Contains S (push_bit k 1) = Enabled S (push_bit k 1)"
  by (simp only: Contains_def Enabled_def None_tf_def and_single_eq [OF assms]
        and_single_zero [OF assms] simp_thms)

theorem Contains_Enabled_single_bit_witness:
  "(2::nat) < 64
   \<and> Contains RemoveSmallBiases DomainPropagation = Enabled RemoveSmallBiases DomainPropagation
   \<and> Contains All_tf DomainPropagation = Enabled All_tf DomainPropagation"
proof -
  have k: "(2::nat) < 64" by simp
  show ?thesis
    using k Contains_Enabled_single_bit [OF k, of RemoveSmallBiases]
      Contains_Enabled_single_bit [OF k, of All_tf]
    by (simp only: DomainPropagation_def simp_thms)
qed

text \<open>
  C3 as stated fails: for a composite technique that is only partly in the set the
  formula of section 3 answers true and the subset test false, and for \<open>None\<close> the subset
  test answers true and the formula false.
\<close>

theorem Contains_Enabled_differ:
  "Contains RemoveRedundantConstraints (Union_tf RemoveRedundantConstraints RemoveSmallBiases)
     \<noteq> Enabled RemoveRedundantConstraints (Union_tf RemoveRedundantConstraints RemoveSmallBiases)
   \<and> Contains RemoveRedundantConstraints None_tf \<noteq> Enabled RemoveRedundantConstraints None_tf"
  by (simp add: Contains_def Enabled_def Union_tf_def None_tf_def named_values)

text \<open>
  C4. \<open>Default\<close> equals \<open>All\<close>, and \<open>Default\<close> contains each of the three named
  techniques.
\<close>

theorem Default_is_All:
  "Default = All_tf
   \<and> Contains Default RemoveRedundantConstraints
   \<and> Contains Default RemoveSmallBiases
   \<and> Contains Default DomainPropagation"
  by (simp add: Default_def All_tf_minus_one Contains_def)

text \<open>
  C5. \<open>All\<close> has every one of the 64 bits set (its value is \<open>2^64 - 1\<close>), and \<open>All\<close>
  contains every technique set: the named techniques and every value over the reserved
  bits 3 to 63 as well.
\<close>

theorem All_contains_everything:
  "{i. bit All_tf i} = {0..<64} \<and> unat All_tf = 2 ^ 64 - 1 \<and> (\<forall>T. Contains All_tf T)"
proof -
  have "{i. bit All_tf i} = {0..<64}"
    unfolding All_tf_minus_one by auto
  moreover have "unat All_tf = 2 ^ 64 - 1"
    by (simp add: All_tf_def)
  moreover have "\<forall>T. Contains All_tf T"
    by (simp add: All_tf_minus_one Contains_def)
  ultimately show ?thesis by simp
qed

section \<open>The named constants\<close>

text \<open>
  C6. The three named techniques are single bits: \<open>RemoveRedundantConstraints\<close> is bit 0,
  \<open>RemoveSmallBiases\<close> bit 1 and \<open>DomainPropagation\<close> bit 2. The bitwise AND of any two
  different ones is \<open>None\<close>, setting one of them in a set leaves the other two as they
  were, and \<open>None\<close> has no bit set.
\<close>

theorem named_techniques_single_bits:
  "{i. bit RemoveRedundantConstraints i} = {0}
   \<and> {i. bit RemoveSmallBiases i} = {1}
   \<and> {i. bit DomainPropagation i} = {2}
   \<and> RemoveRedundantConstraints AND RemoveSmallBiases = None_tf
   \<and> RemoveRedundantConstraints AND DomainPropagation = None_tf
   \<and> RemoveSmallBiases AND DomainPropagation = None_tf
   \<and> (S OR RemoveRedundantConstraints) AND RemoveSmallBiases = S AND RemoveSmallBiases
   \<and> (S OR RemoveRedundantConstraints) AND DomainPropagation = S AND DomainPropagation
   \<and> (S OR RemoveSmallBiases) AND RemoveRedundantConstraints = S AND RemoveRedundantConstraints
   \<and> (S OR RemoveSmallBiases) AND DomainPropagation = S AND DomainPropagation
   \<and> (S OR DomainPropagation) AND RemoveRedundantConstraints = S AND RemoveRedundantConstraints
   \<and> (S OR DomainPropagation) AND RemoveSmallBiases = S AND RemoveSmallBiases
   \<and> {i. bit None_tf i} = {}
   \<and> unat None_tf = 0"
proof -
  have bits: "{i. bit RemoveRedundantConstraints i} = {0}"
    "{i. bit RemoveSmallBiases i} = {1}" "{i. bit DomainPropagation i} = {2}"
    unfolding RemoveRedundantConstraints_def RemoveSmallBiases_def DomainPropagation_def
    by (rule single_bit_set, simp)+
  have disj: "RemoveRedundantConstraints AND RemoveSmallBiases = 0"
    "RemoveRedundantConstraints AND DomainPropagation = 0"
    "RemoveSmallBiases AND DomainPropagation = 0"
    "RemoveSmallBiases AND RemoveRedundantConstraints = 0"
    "DomainPropagation AND RemoveRedundantConstraints = 0"
    "DomainPropagation AND RemoveSmallBiases = 0"
    by (simp_all add: named_values)
  have none: "{i. bit None_tf i} = {}" "unat None_tf = 0"
    by (simp_all add: None_tf_def)
  from bits disj none show ?thesis
    by (simp add: or_disjoint_and None_tf_def)
qed

section \<open>Union and intersection\<close>

text \<open>
  C7. \<open>Union\<close> and \<open>Intersection\<close> are commutative and associative on all technique
  sets. \<open>None\<close> is the identity and \<open>All\<close> the absorbing element of \<open>Union\<close>; \<open>All\<close> is the
  identity and \<open>None\<close> the absorbing element of \<open>Intersection\<close>.
\<close>

theorem Union_Intersection_algebra:
  "Union_tf a b = Union_tf b a
   \<and> Union_tf (Union_tf a b) c = Union_tf a (Union_tf b c)
   \<and> Union_tf S None_tf = S \<and> Union_tf None_tf S = S
   \<and> Union_tf S All_tf = All_tf \<and> Union_tf All_tf S = All_tf
   \<and> Intersection a b = Intersection b a
   \<and> Intersection (Intersection a b) c = Intersection a (Intersection b c)
   \<and> Intersection S All_tf = S \<and> Intersection All_tf S = S
   \<and> Intersection S None_tf = None_tf \<and> Intersection None_tf S = None_tf"
  by (simp add: Union_tf_def Intersection_def None_tf_def All_tf_minus_one ac_simps)

text \<open>
  C8. Every unsigned 64-bit number is the value of a technique set and every technique
  set has such a value; the union and the intersection of two technique sets are
  technique sets again; and a value in the reserved bits 3 to 63 is taken by the
  operations like any other: united into a set it stays in the set, and it does not
  change which named techniques the set contains.
\<close>

theorem TechniqueFlags_closed:
  "(n < 2 ^ 64 \<longrightarrow> unat (word_of_nat n :: TechniqueFlags) = n)
   \<and> unat (S :: TechniqueFlags) < 2 ^ 64
   \<and> word_of_nat (unat S) = S
   \<and> unat (Union_tf S R) < 2 ^ 64
   \<and> unat (Intersection S R) < 2 ^ 64
   \<and> Intersection (Union_tf S R) R = R
   \<and> (reserved_only R \<longrightarrow> named_technique T \<longrightarrow>
        Contains (Union_tf S R) T = Contains S T)"
proof -
  have "n < 2 ^ 64 \<longrightarrow> unat (word_of_nat n :: TechniqueFlags) = n"
    by (simp add: unat_of_nat)
  moreover have "\<And>x :: TechniqueFlags. unat x < 2 ^ 64"
  proof -
    fix x :: TechniqueFlags
    show "unat x < 2 ^ 64" using unsigned_less [of x] by simp
  qed
  moreover have "word_of_nat (unat S) = S" by simp
  moreover have "Intersection (Union_tf S R) R = R"
    by (simp add: Intersection_def Union_tf_def ac_simps)
  moreover have "reserved_only R \<longrightarrow> named_technique T \<longrightarrow>
        Contains (Union_tf S R) T = Contains S T"
  proof (intro impI)
    assume r: "reserved_only R" and t: "named_technique T"
    from r have "R AND named_bits = 0" by (simp add: reserved_only_def None_tf_def)
    then have "R AND T = 0"
      using named_under_named_bits [OF t] by (rule and_under_mask_zero)
    then have "(S OR R) AND T = S AND T" by (rule or_disjoint_and)
    then show "Contains (Union_tf S R) T = Contains S T"
      by (simp add: Contains_def Union_tf_def)
  qed
  ultimately show ?thesis by simp
qed

theorem TechniqueFlags_closed_witness:
  "(8::nat) < 2 ^ 64 \<and> unat (word_of_nat 8 :: TechniqueFlags) = 8
   \<and> reserved_only 8 \<and> named_technique RemoveSmallBiases
   \<and> Contains (Union_tf DomainPropagation 8) RemoveSmallBiases
       = Contains DomainPropagation RemoveSmallBiases
   \<and> Intersection (Union_tf DomainPropagation 8) 8 = 8"
proof -
  have n: "(8::nat) < 2 ^ 64" by simp
  have r: "reserved_only 8"
    by (simp add: reserved_only_def named_bits_def named_values None_tf_def)
  have t: "named_technique RemoveSmallBiases"
    by (simp add: named_technique_def)
  from n r t TechniqueFlags_closed [of 8 DomainPropagation 8 RemoveSmallBiases]
  show ?thesis by simp
qed

text \<open>
  C9. For each of the three named techniques \<open>T\<close>, \<open>Contains (Union None T) T\<close> is true
  and \<open>Contains None T\<close> is false.
\<close>

theorem Contains_Union_None:
  "Contains (Union_tf None_tf RemoveRedundantConstraints) RemoveRedundantConstraints
   \<and> Contains (Union_tf None_tf RemoveSmallBiases) RemoveSmallBiases
   \<and> Contains (Union_tf None_tf DomainPropagation) DomainPropagation
   \<and> \<not> Contains None_tf RemoveRedundantConstraints
   \<and> \<not> Contains None_tf RemoveSmallBiases
   \<and> \<not> Contains None_tf DomainPropagation"
  by (simp add: Contains_def Union_tf_def None_tf_def named_values)

section \<open>The numbering of the feasibility enumeration\<close>

text \<open>
  C10. The enumerators of \<open>Feasibility\<close> are, in this order, \<open>Infeasible\<close> with the
  underlying value 0, \<open>Feasible\<close> with 1 and \<open>Unknown\<close> with 2; a zero-initialised
  \<open>Feasibility\<close> is therefore \<open>Infeasible\<close> and not \<open>Unknown\<close>.
\<close>

theorem Feasibility_numbering:
  "map fst Feasibility_values = [Infeasible, Feasible, Unknown]
   \<and> Feasibility_value Infeasible = Some 0
   \<and> Feasibility_value Feasible = Some 1
   \<and> Feasibility_value Unknown = Some 2
   \<and> zero_initialized = Some Infeasible
   \<and> zero_initialized \<noteq> Some Unknown"
  by (simp add: Feasibility_value_def zero_initialized_def Feasibility_of_value_def
        Feasibility_values_eq)

end
